theory Spec2Isabelle
  imports
    Complex_Main
    "HOL-Library.Multiset"
    "HOL-Library.Sublist"
    "HOL-Library.Char_ord"
    "HOL-Library.List_Lexorder"
begin

section \<open>NPB statistics dashboard: the data layer of \<open>logic.py\<close>\<close>

text \<open>
  \<open>logic.py\<close> loads a CSV of season results into a pandas DataFrame, derives filter
  options and filtered views from it, and appends views to a history CSV. The functions
  below follow \<open>logic.py\<close> line by line. Python \<open>str\<close> values are byte lists in UTF-8
  (byte-wise comparison of UTF-8 agrees with Python's code point order on \<open>str\<close>).
\<close>

subsection \<open>Tables of records (the query layer)\<close>

text \<open>
  A float64 cell is a number or NaN, which is what pandas stores for a missing value.
\<close>

datatype float64 = Num real | NaN

text \<open>
  One row of the frame \<open>load_source\<close> returns: the integer columns are int64 after
  \<open>astype(int)\<close>, \<open>WinRate\<close> is float64, the two text columns hold \<open>str\<close>.
  The query layer reads the columns \<open>Year\<close>, \<open>League\<close>, \<open>Team\<close> and \<open>WinRate\<close>
  and hands the rows on whole.
\<close>

record row =
  Year :: int
  League :: string
  Team :: string
  Games :: int
  Wins :: int
  Losses :: int
  Draws :: int
  WinRate :: float64

type_synonym table = "row list"

text \<open>Python truthiness of a \<open>str | None\<close> argument: \<open>None\<close> and \<open>""\<close> are false.\<close>

fun truthy :: "string option \<Rightarrow> bool" where
  "truthy None = False"
| "truthy (Some s) = (s \<noteq> [])"

text \<open>\<open>Series.unique()\<close>: the distinct values in order of first appearance.\<close>

fun unique :: "'a list \<Rightarrow> 'a list" where
  "unique [] = []"
| "unique (x # xs) = x # unique (filter (\<lambda>y. y \<noteq> x) xs)"

text \<open>
  \<open>teams(df, year=None, league=None)\<close>:
  \<^verbatim>\<open>
    q = df
    if year is not None:   q = q[q["Year"] == year]
    if league:             q = q[q["League"] == league]
    return sorted(q["Team"].unique().tolist())
  \<close>
\<close>

definition teams :: "table \<Rightarrow> int option \<Rightarrow> string option \<Rightarrow> string list" where
  "teams df year league =
     (let q = df;
          q = (case year of None \<Rightarrow> q | Some y \<Rightarrow> filter (\<lambda>r. Year r = y) q);
          q = (if truthy league then filter (\<lambda>r. Some (League r) = league) q else q)
      in sort (unique (map Team q)))"



text \<open>
  \<open>DataFrame.sort_values(by, ascending)\<close> on one column. The column is given by the
  key it yields for a row, \<open>None\<close> for a missing value (NaN). pandas (\<open>nargsort\<close>)
  sorts the rows that have a key with numpy's \<open>argsort\<close>, between two reversals when
  the order is descending, and puts the rows without a key last, in the order they
  had. \<open>argsort\<close> is the insertion sort \<open>sort_key\<close> here, which leaves rows of equal
  key in the order they had, as the specification reads the call. (numpy documents
  that order for its stable kinds; the code calls \<open>sort_values\<close> with the default
  kind, so for rows of equal key the stable order is what this model takes of numpy.)
\<close>

definition sort_values :: "('a \<Rightarrow> 'k::linorder option) \<Rightarrow> bool \<Rightarrow> 'a list \<Rightarrow> 'a list" where
  "sort_values col ascending df =
     (let present = filter (\<lambda>r. \<not> Option.is_none (col r)) df;
          missing = filter (\<lambda>r. Option.is_none (col r)) df;
          key = (\<lambda>r. the (col r))
      in (if ascending then sort_key key present else rev (sort_key key (rev present)))
           @ missing)"

text \<open>The two columns the code sorts by.\<close>

definition col_WinRate :: "row \<Rightarrow> real option" where
  "col_WinRate r = (case WinRate r of NaN \<Rightarrow> None | Num x \<Rightarrow> Some x)"

definition col_Year :: "row \<Rightarrow> int option" where
  "col_Year r = Some (Year r)"


text \<open>
  \<open>team_trend(df, team)\<close>:
  \<^verbatim>\<open>
    t = df[df["Team"] == team].copy()
    return t.sort_values("Year").reset_index(drop=True)
  \<close>
  (\<open>ascending\<close> is \<open>True\<close> when not given.)
\<close>

definition team_trend :: "table \<Rightarrow> string \<Rightarrow> table" where
  "team_trend df team = sort_values col_Year True (filter (\<lambda>r. Team r = team) df)"





subsection \<open>Frames, CSV files and the file system (the storage boundary)\<close>

text \<open>
  At the storage boundary a DataFrame has whatever columns the CSV had, so it is a list
  of column labels and rows of cells. A cell read from CSV is an int, a float (NaN for
  an empty field) or text.
\<close>

datatype cell = IntV int | FloatV float64 | StrV string

record frame =
  columns :: "string list"
  rows :: "cell list list"

text \<open>
  A CSV file as \<open>read_csv\<close> has it once the lines are tokenised and the columns
  typed: the header line and the data lines, each a list of cells. The source file,
  which the program only reads, is given in this form.
\<close>

record csv =
  header :: "string list"
  lines :: "cell list list"

text \<open>
  A CSV file as text: the header line and the data lines, each a list of fields, a
  field being its text without the quotes \<open>to_csv\<close> may put around it. The history
  log, which the program writes and reads back, is kept in this form.
\<close>

record text_csv =
  names :: "string list"
  texts :: "string list list"

text \<open>
  The exceptions: \<open>ValueError\<close> is the one \<open>logic.py\<close> raises itself, with its message;
  the others are raised inside pandas (\<open>CastError\<close> by \<open>astype\<close>, \<open>DuplicateColumn\<close> by
  \<open>DataFrame.insert\<close>; both are \<open>ValueError\<close> instances in Python, with pandas'
  messages) or by the operating system (\<open>OSError\<close>, Python's \<open>IOError\<close>, when the
  data directory or the history log cannot be written).
\<close>

datatype error =
    FileNotFoundError
  | ParserError
  | KeyError string
  | ValueError string
  | CastError
  | DuplicateColumn string
  | OSError

text \<open>
  What is taken from pandas and Python without a model: what \<open>read_csv\<close> makes of a
  file with a data line longer than its header, and \<open>int(s)\<close> and \<open>float(s)\<close> on
  text (\<open>None\<close> when they raise); the text \<open>to_csv\<close> writes for a float
  (\<open>float_repr\<close>), the float \<open>read_csv\<close> reads from a field (\<open>read_float\<close>, \<open>None\<close>
  for a field that is no number), and the cell \<open>read_csv\<close> makes of a truth value.
\<close>

record pandas =
  over_long :: "csv \<Rightarrow> error + frame"
  int_of_str :: "string \<Rightarrow> int option"
  float_of_str :: "string \<Rightarrow> float64 option"
  float_repr :: "real \<Rightarrow> string"
  read_float :: "string \<Rightarrow> real option"
  truth_cell :: "string \<Rightarrow> cell"

text \<open>
  The files under \<open>DATA_DIR\<close>: \<open>SRC_PATH\<close> (\<open>npb_stats.csv\<close>) and \<open>DB_PATH\<close>
  (\<open>records.csv\<close>), \<open>None\<close> for a file that does not exist; \<open>writable\<close> says
  whether the data directory can be made and the history log written.
\<close>

record fs =
  data_dir :: bool
  src_file :: "csv option"
  db_file :: "text_csv option"
  writable :: bool

definition NEEDED_COLS :: "string list" where
  "NEEDED_COLS =
     [''Year'', ''League'', ''Team'', ''Games'', ''Wins'', ''Losses'', ''Draws'', ''WinRate'']"

text \<open>\<open>os.makedirs(DATA_DIR, exist_ok=True)\<close>\<close>

definition ensure_dirs :: "fs \<Rightarrow> fs" where
  "ensure_dirs s = s\<lparr>data_dir := True\<rparr>"

text \<open>\<open>pd.read_csv\<close> on a tokenised file: a short line is filled up with NaN.\<close>

definition pad :: "nat \<Rightarrow> cell list \<Rightarrow> cell list" where
  "pad n l = l @ replicate (n - length l) (FloatV NaN)"

definition read_csv :: "pandas \<Rightarrow> csv \<Rightarrow> error + frame" where
  "read_csv pd file =
     (if list_ex (\<lambda>l. length (header file) < length l) (lines file) then over_long pd file
      else Inr \<lparr>columns = header file, rows = map (pad (length (header file))) (lines file)\<rparr>)"

text \<open>
  \<open>str(xs)\<close> of a list of \<open>str\<close>, as the f-strings of the error messages render
  \<open>missing\<close> and \<open>NEEDED_COLS\<close>. It is exact for strings that need no escape, which
  the names in \<open>NEEDED_COLS\<close> are.
\<close>

definition repr_str :: "string \<Rightarrow> string" where
  "repr_str s = [CHR 0x27] @ s @ [CHR 0x27]"

fun join :: "string \<Rightarrow> string list \<Rightarrow> string" where
  "join sep [] = []"
| "join sep [x] = x"
| "join sep (x # y # ys) = x @ sep @ join sep (y # ys)"

definition repr_list :: "string list \<Rightarrow> string" where
  "repr_list xs = ''['' @ join '', '' (map repr_str xs) @ '']''"

text \<open>
  The fixed parts of the two messages, in UTF-8. \<open>MSG_SOURCE\<close> is "CSV" followed by
  U+306E U+5217 U+304C U+4E0D U+8DB3 U+3057 U+3066 U+3044 U+307E U+3059 and ": ";
  \<open>MSG_EXPECTED\<close> is " / " U+671F U+5F85 ": "; \<open>MSG_UPLOAD\<close> is U+30A2 U+30C3 U+30D7
  U+30ED U+30FC U+30C9 "CSV" U+306E U+5217 U+304C U+4E0D U+8DB3 ": ".
\<close>

definition MSG_SOURCE :: string where
  "MSG_SOURCE = ''CSV'' @
     [CHR 0xE3, CHR 0x81, CHR 0xAE, CHR 0xE5, CHR 0x88, CHR 0x97, CHR 0xE3, CHR 0x81, CHR 0x8C,
      CHR 0xE4, CHR 0xB8, CHR 0x8D, CHR 0xE8, CHR 0xB6, CHR 0xB3, CHR 0xE3, CHR 0x81, CHR 0x97,
      CHR 0xE3, CHR 0x81, CHR 0xA6, CHR 0xE3, CHR 0x81, CHR 0x84, CHR 0xE3, CHR 0x81, CHR 0xBE,
      CHR 0xE3, CHR 0x81, CHR 0x99] @ '': ''"

definition MSG_EXPECTED :: string where
  "MSG_EXPECTED = '' / '' @ [CHR 0xE6, CHR 0x9C, CHR 0x9F, CHR 0xE5, CHR 0xBE, CHR 0x85] @ '': ''"

definition MSG_UPLOAD :: string where
  "MSG_UPLOAD =
     [CHR 0xE3, CHR 0x82, CHR 0xA2, CHR 0xE3, CHR 0x83, CHR 0x83, CHR 0xE3, CHR 0x83, CHR 0x97,
      CHR 0xE3, CHR 0x83, CHR 0xAD, CHR 0xE3, CHR 0x83, CHR 0xBC, CHR 0xE3, CHR 0x83, CHR 0x89]
     @ ''CSV'' @
     [CHR 0xE3, CHR 0x81, CHR 0xAE, CHR 0xE5, CHR 0x88, CHR 0x97, CHR 0xE3, CHR 0x81, CHR 0x8C,
      CHR 0xE4, CHR 0xB8, CHR 0x8D, CHR 0xE8, CHR 0xB6, CHR 0xB3] @ '': ''"

text \<open>\<open>[c for c in NEEDED_COLS if c not in df.columns]\<close>\<close>

definition missing_cols :: "frame \<Rightarrow> string list" where
  "missing_cols df = filter (\<lambda>c. c \<notin> set (columns df)) NEEDED_COLS"

text \<open>
  \<open>_read_csv_strict(path)\<close>, given the file at \<open>path\<close>:
  \<^verbatim>\<open>
    df = pd.read_csv(path)
    missing = [c for c in NEEDED_COLS if c not in df.columns]
    if missing:
        raise ValueError(f"{MSG_SOURCE}{missing}{MSG_EXPECTED}{NEEDED_COLS}")
    return df
  \<close>
\<close>

definition read_csv_strict :: "pandas \<Rightarrow> csv option \<Rightarrow> error + frame" where
  "read_csv_strict pd path =
     (case path of
        None \<Rightarrow> Inl FileNotFoundError
      | Some file \<Rightarrow>
          (case read_csv pd file of
             Inl e \<Rightarrow> Inl e
           | Inr df \<Rightarrow>
               (let missing = missing_cols df
                in if missing \<noteq> []
                   then Inl (ValueError
                          (MSG_SOURCE @ repr_list missing @ MSG_EXPECTED @ repr_list NEEDED_COLS))
                   else Inr df)))"

text \<open>The position of the column labelled \<open>c\<close>, for \<open>df[c]\<close>.\<close>

fun col_index :: "string list \<Rightarrow> string \<Rightarrow> nat option" where
  "col_index [] c = None"
| "col_index (x # xs) c = (if x = c then Some 0 else map_option Suc (col_index xs c))"

definition column :: "frame \<Rightarrow> string \<Rightarrow> cell list option" where
  "column df c = map_option (\<lambda>i. map (\<lambda>r. r ! i) (rows df)) (col_index (columns df) c)"

text \<open>
  \<open>astype(int)\<close> on one cell: an int stays, a float is truncated towards zero, NaN
  and text that is no integer raise. \<open>astype(float)\<close>: numbers stay, text that is no
  number raises. (The bounds of int64 are not modelled.)
\<close>

definition trunc :: "real \<Rightarrow> int" where
  "trunc x = (if 0 \<le> x then \<lfloor>x\<rfloor> else \<lceil>x\<rceil>)"

fun astype_int :: "pandas \<Rightarrow> cell \<Rightarrow> cell option" where
  "astype_int pd (IntV i) = Some (IntV i)"
| "astype_int pd (FloatV (Num x)) = Some (IntV (trunc x))"
| "astype_int pd (FloatV NaN) = None"
| "astype_int pd (StrV s) = map_option IntV (int_of_str pd s)"

fun astype_float :: "pandas \<Rightarrow> cell \<Rightarrow> float64 option" where
  "astype_float pd (IntV i) = Some (Num (of_int i))"
| "astype_float pd (FloatV v) = Some v"
| "astype_float pd (StrV s) = float_of_str pd s"

text \<open>
  \<open>Series.clip(0, 1)\<close>: a value below 0 becomes 0, a value above 1 becomes 1, and a
  missing value stays missing.
\<close>

fun clip01 :: "float64 \<Rightarrow> float64" where
  "clip01 NaN = NaN"
| "clip01 (Num x) = Num (if x \<le> 1 then (if 0 \<le> x then x else 0) else 1)"

definition astype_float_clip :: "pandas \<Rightarrow> cell \<Rightarrow> cell option" where
  "astype_float_clip pd c = map_option (\<lambda>v. FloatV (clip01 v)) (astype_float pd c)"

text \<open>\<open>df[c] = f(df[c])\<close> for a conversion \<open>f\<close> that may raise on a cell.\<close>

fun convert_column :: "(cell \<Rightarrow> cell option) \<Rightarrow> nat \<Rightarrow> cell list list \<Rightarrow> cell list list option" where
  "convert_column f i [] = Some []"
| "convert_column f i (r # rs) =
     (case f (r ! i) of
        None \<Rightarrow> None
      | Some v \<Rightarrow>
          (case convert_column f i rs of
             None \<Rightarrow> None
           | Some rs' \<Rightarrow> Some (r[i := v] # rs')))"

definition assign_converted :: "(cell \<Rightarrow> cell option) \<Rightarrow> string \<Rightarrow> frame \<Rightarrow> error + frame" where
  "assign_converted f c df =
     (case col_index (columns df) c of
        None \<Rightarrow> Inl (KeyError c)
      | Some i \<Rightarrow>
          (case convert_column f i (rows df) of
             None \<Rightarrow> Inl CastError
           | Some rs \<Rightarrow> Inr (df\<lparr>rows := rs\<rparr>)))"

fun and_then :: "error + 'a \<Rightarrow> ('a \<Rightarrow> error + 'b) \<Rightarrow> error + 'b" where
  "and_then (Inl e) f = Inl e"
| "and_then (Inr x) f = f x"

fun assign_all_converted ::
  "(cell \<Rightarrow> cell option) \<Rightarrow> string list \<Rightarrow> frame \<Rightarrow> error + frame" where
  "assign_all_converted f [] df = Inr df"
| "assign_all_converted f (c # cs) df =
     and_then (assign_converted f c df) (assign_all_converted f cs)"

text \<open>
  \<open>load_source()\<close>:
  \<^verbatim>\<open>
    ensure_dirs()
    df = _read_csv_strict(SRC_PATH).copy()
    df["Year"]   = df["Year"].astype(int)
    for c in ["Games","Wins","Losses","Draws"]:
        df[c] = df[c].astype(int)
    df["WinRate"] = df["WinRate"].astype(float).clip(0, 1)
    return df
  \<close>
\<close>

definition load_source :: "pandas \<Rightarrow> fs \<Rightarrow> (error + frame) \<times> fs" where
  "load_source pd s =
     (let s' = ensure_dirs s;
          df = read_csv_strict pd (src_file s');
          df = and_then df (assign_converted (astype_int pd) ''Year'');
          df = and_then df
                 (assign_all_converted (astype_int pd) [''Games'', ''Wins'', ''Losses'', ''Draws'']);
          df = and_then df (assign_converted (astype_float_clip pd) ''WinRate'')
      in (df, s'))"

text \<open>
  \<open>import_uploaded_csv(bytes_obj)\<close>; the buffer is given as pandas tokenises it,
  \<open>None\<close> for bytes that are no tabular data:
  \<^verbatim>\<open>
    with io.BytesIO(bytes_obj) as f:
        df = pd.read_csv(f)
    missing = [c for c in NEEDED_COLS if c not in df.columns]
    if missing:
        raise ValueError(f"{MSG_UPLOAD}{missing}")
    return df
  \<close>
  The function touches no file: the file system it is given is the one it leaves.
\<close>

definition import_uploaded_csv :: "pandas \<Rightarrow> csv option \<Rightarrow> fs \<Rightarrow> (error + frame) \<times> fs" where
  "import_uploaded_csv pd bytes_obj s =
     (case bytes_obj of
        None \<Rightarrow> (Inl ParserError, s)
      | Some file \<Rightarrow>
          (case read_csv pd file of
             Inl e \<Rightarrow> (Inl e, s)
           | Inr df \<Rightarrow>
               (let missing = missing_cols df
                in if missing \<noteq> []
                   then (Inl (ValueError (MSG_UPLOAD @ repr_list missing)), s)
                   else (Inr df, s))))"










text \<open>
  How \<open>read_csv\<close> types the fields of a file. A field that is one of pandas' tokens
  for a missing value, the empty field among them, is missing.
\<close>

definition NA_VALUES :: "string list" where
  "NA_VALUES =
     [[], ''#N/A'', ''#N/A N/A'', ''#NA'', ''-1.#IND'', ''-1.#QNAN'', ''-NaN'', ''-nan'',
      ''1.#IND'', ''1.#QNAN'', ''<NA>'', ''N/A'', ''NA'', ''NULL'', ''NaN'', ''None'', ''n/a'',
      ''nan'', ''null'']"

definition is_na :: "string \<Rightarrow> bool" where
  "is_na t \<longleftrightarrow> t \<in> set NA_VALUES"

text \<open>An int is read from an optional sign and decimal digits.\<close>

definition is_digits :: "string \<Rightarrow> bool" where
  "is_digits t \<longleftrightarrow> t \<noteq> [] \<and> list_all (\<lambda>c. c \<in> set ''0123456789'') t"

definition digit_val :: "char \<Rightarrow> nat" where
  "digit_val c = length (takeWhile (\<lambda>d. d \<noteq> c) ''0123456789'')"

definition nat_of_digits :: "string \<Rightarrow> nat" where
  "nat_of_digits t = foldl (\<lambda>a c. 10 * a + digit_val c) 0 t"

fun is_int_text :: "string \<Rightarrow> bool" where
  "is_int_text [] = False"
| "is_int_text (c # t) = (if c = CHR ''-'' \<or> c = CHR ''+'' then is_digits t else is_digits (c # t))"

fun int_of_text :: "string \<Rightarrow> int" where
  "int_of_text [] = 0"
| "int_of_text (c # t) =
     (if c = CHR ''-'' then - int (nat_of_digits t)
      else if c = CHR ''+'' then int (nat_of_digits t)
      else int (nat_of_digits (c # t)))"

definition is_truth_text :: "string \<Rightarrow> bool" where
  "is_truth_text t \<longleftrightarrow> t \<in> set [''True'', ''TRUE'', ''true'', ''False'', ''FALSE'', ''false'']"

text \<open>
  The type of a column is found from all its fields: int64 when every field is an
  int; else float64 when every field is missing or a number; else bool when every
  field is a truth value; else object, which keeps the text.
\<close>

datatype dtype = Int64 | Float64 | Bool | Object

definition is_number :: "pandas \<Rightarrow> string \<Rightarrow> bool" where
  "is_number pd t \<longleftrightarrow> is_na t \<or> is_int_text t \<or> \<not> Option.is_none (read_float pd t)"

definition infer_dtype :: "pandas \<Rightarrow> string list \<Rightarrow> dtype" where
  "infer_dtype pd ts =
     (if list_all is_int_text ts then Int64
      else if list_all (is_number pd) ts then Float64
      else if list_all is_truth_text ts then Bool
      else Object)"

fun decode :: "pandas \<Rightarrow> dtype \<Rightarrow> string \<Rightarrow> cell" where
  "decode pd Int64 t = IntV (int_of_text t)"
| "decode pd Float64 t =
     (if is_na t then FloatV NaN
      else if is_int_text t then FloatV (Num (of_int (int_of_text t)))
      else FloatV (Num (the (read_float pd t))))"
| "decode pd Bool t = truth_cell pd t"
| "decode pd Object t = (if is_na t then FloatV NaN else StrV t)"

text \<open>
  The fields of column \<open>j\<close>; a line that ends before it has a missing value there.
\<close>

definition column_texts :: "text_csv \<Rightarrow> nat \<Rightarrow> string list" where
  "column_texts file j = map (\<lambda>l. if j < length l then l ! j else []) (texts file)"

definition typed_line :: "pandas \<Rightarrow> text_csv \<Rightarrow> string list \<Rightarrow> cell list" where
  "typed_line pd file l =
     map (\<lambda>j. decode pd (infer_dtype pd (column_texts file j)) (l ! j)) [0..<length l]"

definition parse_fields :: "pandas \<Rightarrow> text_csv \<Rightarrow> csv" where
  "parse_fields pd file = \<lparr>header = names file, lines = map (typed_line pd file) (texts file)\<rparr>"

text \<open>
  \<open>load_db()\<close>:
  \<^verbatim>\<open>
    if not os.path.exists(DB_PATH):
        return pd.DataFrame()
    return pd.read_csv(DB_PATH)
  \<close>
\<close>

definition load_db :: "pandas \<Rightarrow> fs \<Rightarrow> (error + frame) \<times> fs" where
  "load_db pd s =
     (case db_file s of
        None \<Rightarrow> (Inr \<lparr>columns = [], rows = []\<rparr>, s)
      | Some file \<Rightarrow> (read_csv pd (parse_fields pd file), s))"

text \<open>A DataFrame is rectangular: every row has a cell for every column.\<close>

definition rect :: "frame \<Rightarrow> bool" where
  "rect df \<longleftrightarrow> list_all (\<lambda>r. length r = length (columns df)) (rows df)"

text \<open>
  Also the frames that \<open>read_csv\<close> makes of a file with an over-long line are
  rectangular.
\<close>

definition frames_rect :: "pandas \<Rightarrow> bool" where
  "frames_rect pd \<longleftrightarrow> (\<forall>file df. over_long pd file = Inr df \<longrightarrow> rect df)"













text \<open>The WinRate cells the specification promises of \<open>load_source\<close>: numbers in [0,1].\<close>

fun in_unit :: "cell \<Rightarrow> bool" where
  "in_unit (FloatV (Num x)) = (0 \<le> x \<and> x \<le> 1)"
| "in_unit _ = False"

subsection \<open>Example data\<close>

text \<open>
  The two rows of the example in section 8 of the specification (the league name in
  ASCII), a third row with the same \<open>WinRate\<close> as the second, and a row of another
  season whose \<open>WinRate\<close> cell is missing.
\<close>

definition rowA :: row where
  "rowA = \<lparr>Year = 2023, League = ''Central'', Team = ''TeamA'', Games = 140, Wins = 80,
      Losses = 58, Draws = 2, WinRate = Num 0.580\<rparr>"

definition rowB :: row where
  "rowB = \<lparr>Year = 2023, League = ''Central'', Team = ''TeamB'', Games = 140, Wins = 70,
      Losses = 68, Draws = 2, WinRate = Num 0.507\<rparr>"

definition rowC :: row where
  "rowC = \<lparr>Year = 2023, League = ''Pacific'', Team = ''TeamC'', Games = 140, Wins = 70,
      Losses = 68, Draws = 2, WinRate = Num 0.507\<rparr>"

definition rowD :: row where
  "rowD = \<lparr>Year = 2022, League = ''Pacific'', Team = ''TeamC'', Games = 0, Wins = 0,
      Losses = 0, Draws = 0, WinRate = NaN\<rparr>"

definition example_table :: table where
  "example_table = [rowD, rowB, rowC, rowA]"

text \<open>
  For the examples the routines taken from pandas can be anything; this one refuses
  every over-long line and every text, and knows the text of two floats.
\<close>

definition strict_pandas :: pandas where
  "strict_pandas =
     \<lparr>over_long = (\<lambda>file. Inl ParserError), int_of_str = (\<lambda>s. None),
      float_of_str = (\<lambda>s. None),
      float_repr = (\<lambda>x. if x = 0.58 then ''0.58'' else if x = 0.507 then ''0.507'' else ''nan''),
      read_float = map_of [(''0.58'', 0.58), (''0.507'', 0.507)],
      truth_cell = StrV\<rparr>"

text \<open>
  A source file with a \<open>WinRate\<close> above 1, one below 0 and an empty \<open>WinRate\<close> field;
  an upload without the \<open>Draws\<close> column; a view of two rows, and a view whose columns
  are in another order, as an upload with all the needed columns may have them.
\<close>

definition source_csv :: csv where
  "source_csv =
     \<lparr>header = NEEDED_COLS,
      lines =
        [[IntV 2023, StrV ''Central'', StrV ''TeamA'', IntV 140, IntV 80, IntV 58, IntV 2,
          FloatV (Num 1.2)],
         [IntV 2023, StrV ''Central'', StrV ''TeamB'', IntV 140, IntV 70, IntV 68, IntV 2,
          FloatV (Num 0.507)],
         [IntV 2023, StrV ''Pacific'', StrV ''TeamC'', IntV 140, IntV 70, IntV 68, IntV 2,
          FloatV (Num (- 0.1))],
         [IntV 2022, StrV ''Pacific'', StrV ''TeamC'', IntV 0, IntV 0, IntV 0, IntV 0,
          FloatV NaN]]\<rparr>"

definition no_draws_csv :: csv where
  "no_draws_csv =
     \<lparr>header = [''Year'', ''League'', ''Team'', ''Games'', ''Wins'', ''Losses'', ''WinRate''],
      lines =
        [[IntV 2023, StrV ''Central'', StrV ''TeamA'', IntV 140, IntV 80, IntV 58,
          FloatV (Num 0.580)]]\<rparr>"

definition example_fs :: fs where
  "example_fs =
     \<lparr>data_dir = True, src_file = Some source_csv, db_file = None, writable = True\<rparr>"












text \<open>What \<open>load_source\<close> returns for the example source file.\<close>

definition loaded_example :: frame where
  "loaded_example =
     \<lparr>columns = NEEDED_COLS,
      rows =
        [[IntV 2023, StrV ''Central'', StrV ''TeamA'', IntV 140, IntV 80, IntV 58, IntV 2,
          FloatV (Num 1)],
         [IntV 2023, StrV ''Central'', StrV ''TeamB'', IntV 140, IntV 70, IntV 68, IntV 2,
          FloatV (Num 0.507)],
         [IntV 2023, StrV ''Pacific'', StrV ''TeamC'', IntV 140, IntV 70, IntV 68, IntV 2,
          FloatV (Num 0)],
         [IntV 2022, StrV ''Pacific'', StrV ''TeamC'', IntV 0, IntV 0, IntV 0, IntV 0,
          FloatV NaN]]\<rparr>"

section \<open>Properties\<close>

subsection \<open>Sorting\<close>

lemma set_unique: "set (unique xs) = set xs"
  by (induction xs rule: unique.induct) auto


lemma sort_values_eq:
  "sort_values col asc xs =
     (if asc then sort_key (\<lambda>r. the (col r)) (filter (\<lambda>r. \<not> Option.is_none (col r)) xs)
      else rev (sort_key (\<lambda>r. the (col r)) (rev (filter (\<lambda>r. \<not> Option.is_none (col r)) xs))))
     @ filter (\<lambda>r. Option.is_none (col r)) xs"
  unfolding sort_values_def Let_def by (rule refl)

lemma mset_sort_values: "mset (sort_values col asc xs) = mset xs"
  by (simp add: sort_values_eq)

lemma sort_values_Nil: "sort_values col asc [] = []"
  by (simp add: sort_values_eq)



lemma col_WinRate_the: "WinRate r = Num x \<Longrightarrow> the (col_WinRate r) = x"
  by (simp add: col_WinRate_def)


lemma sorted_by_year: "sorted (map Year (sort_values col_Year True xs))"
proof -
  have "sorted (map (\<lambda>r. the (col_Year r)) (sort_key (\<lambda>r. the (col_Year r)) ys))" for ys :: table
    by (rule sorted_sort_key)
  then show ?thesis
    by (simp add: sort_values_eq col_Year_def)
qed


subsection \<open>The query layer\<close>







text \<open>
  Claim C5. For every table, year \<open>y\<close> and league \<open>l\<close>, the teams of
  \<open>teams(T, y, l)\<close> are among those of \<open>teams(T, y, None)\<close>, which are among those of
  \<open>teams(T, None, None)\<close>.
\<close>

theorem teams_monotone:
  "set (teams T (Some y) (Some l)) \<subseteq> set (teams T (Some y) None)
   \<and> set (teams T (Some y) None) \<subseteq> set (teams T None None)"
  by (auto simp: teams_def set_unique Let_def)



text \<open>
  Claim C7. For every table and team name, \<open>team_trend\<close> returns exactly the rows of
  that team, in non-decreasing order of \<open>Year\<close>; when the team is in no row, the
  result is the empty table, an ordinary value.
\<close>

theorem team_trend_rows_by_year:
  "mset (team_trend T team) = mset (filter (\<lambda>r. Team r = team) T)
   \<and> sorted (map Year (team_trend T team))
   \<and> (team \<notin> Team ` set T \<longrightarrow> team_trend T team = [])"
proof -
  have "team \<notin> Team ` set T \<Longrightarrow> filter (\<lambda>r. Team r = team) T = []"
    by (auto simp: filter_empty_conv)
  then show ?thesis
    by (auto simp: team_trend_def mset_sort_values sorted_by_year sort_values_Nil)
qed

theorem team_trend_rows_by_year_witness:
  "team_trend example_table ''TeamC'' = [rowD, rowC]
   \<and> team_trend [rowC, rowA, rowD] ''TeamC'' = [rowD, rowC]
   \<and> ''Nobody'' \<notin> Team ` set example_table
   \<and> team_trend example_table ''Nobody'' = []"
  using team_trend_rows_by_year [of example_table "''TeamC''"]
    team_trend_rows_by_year [of example_table "''Nobody''"]
  by (simp add: team_trend_def sort_values_def col_Year_def example_table_def
      rowA_def rowB_def rowC_def rowD_def)

text \<open>
  Claim C10. For every table and year, \<open>teams\<close> with the empty string as league
  restricts by no league: the result is that of \<open>teams\<close> with no league, since the
  argument is tested for truthiness and the empty string is never compared with the
  \<open>League\<close> column.
\<close>

theorem teams_empty_league:
  "teams T y (Some []) = teams T y None
   \<and> teams T (Some y') (Some []) = sort (unique (map Team (filter (\<lambda>r. Year r = y') T)))"
  by (simp add: teams_def)

subsection \<open>Reading and validating\<close>

lemma and_then_Inr: "and_then a f = Inr y \<longleftrightarrow> (\<exists>x. a = Inr x \<and> f x = Inr y)"
  by (cases a) auto

lemma and_then_ValueError:
  "and_then a f = Inl (ValueError m) \<Longrightarrow>
     a = Inl (ValueError m) \<or> (\<exists>x. a = Inr x \<and> f x = Inl (ValueError m))"
  by (cases a) auto

lemma assign_converted_no_ValueError: "assign_converted f c df \<noteq> Inl (ValueError m)"
  by (simp add: assign_converted_def split: option.splits)

lemma assign_all_converted_no_ValueError: "assign_all_converted f cs df \<noteq> Inl (ValueError m)"
proof (induction cs arbitrary: df)
  case (Cons c cs)
  show ?case
    using and_then_ValueError [of "assign_converted f c df" "assign_all_converted f cs" m]
      Cons assign_converted_no_ValueError [of f c df m]
    by auto
qed simp

lemma read_csv_strict_Some:
  assumes "read_csv pd f = Inr df"
  shows "read_csv_strict pd (Some f) =
     (if missing_cols df \<noteq> []
      then Inl (ValueError (MSG_SOURCE @ repr_list (missing_cols df) @ MSG_EXPECTED
                  @ repr_list NEEDED_COLS))
      else Inr df)"
  using assms by (simp add: read_csv_strict_def)

lemma load_source_Some:
  "fst (load_source pd (s\<lparr>src_file := Some f\<rparr>)) =
     and_then (and_then (and_then (read_csv_strict pd (Some f))
        (assign_converted (astype_int pd) ''Year''))
        (assign_all_converted (astype_int pd) [''Games'', ''Wins'', ''Losses'', ''Draws'']))
        (assign_converted (astype_float_clip pd) ''WinRate'')"
  by (simp add: load_source_def Let_def ensure_dirs_def)

lemma col_index_Some: "col_index cs c = Some i \<Longrightarrow> i < length cs \<and> cs ! i = c"
  by (induction cs arbitrary: i) (auto split: if_splits)

lemma convert_column_Some:
  "convert_column f i rs = Some rs' \<Longrightarrow>
     rs' = map (\<lambda>r. r[i := the (f (r ! i))]) rs \<and> (\<forall>r \<in> set rs. f (r ! i) \<noteq> None)"
  by (induction rs arbitrary: rs') (auto split: option.splits)

lemma assign_converted_Inr:
  assumes "assign_converted f c df = Inr df'"
  shows "\<exists>i. col_index (columns df) c = Some i \<and> (\<forall>r \<in> set (rows df). f (r ! i) \<noteq> None)
           \<and> df' = df\<lparr>rows := map (\<lambda>r. r[i := the (f (r ! i))]) (rows df)\<rparr>"
  using assms convert_column_Some [of f _ "rows df"]
  by (auto simp: assign_converted_def split: option.splits)

lemma assign_converted_keeps:
  assumes "assign_converted f c df = Inr df'"
  shows "columns df' = columns df" and "rect df \<Longrightarrow> rect df'"
    and "c' \<noteq> c \<Longrightarrow> column df' c' = column df c'"
proof -
  from assign_converted_Inr [OF assms] obtain i where
    i: "col_index (columns df) c = Some i"
    and df': "df' = df\<lparr>rows := map (\<lambda>r. r[i := the (f (r ! i))]) (rows df)\<rparr>"
    by blast
  show "columns df' = columns df" by (simp add: df')
  show "rect df \<Longrightarrow> rect df'" by (simp add: df' rect_def list_all_iff)
  show "column df' c' = column df c'" if "c' \<noteq> c"
  proof (cases "col_index (columns df) c'")
    case None
    then show ?thesis by (simp add: column_def df')
  next
    case (Some j)
    with i that col_index_Some have "i \<noteq> j" by metis
    with Some show ?thesis by (simp add: column_def df')
  qed
qed

lemma assign_converted_column:
  assumes "assign_converted f c df = Inr df'" and "rect df"
  shows "\<exists>ws. column df c = Some ws \<and> (\<forall>w \<in> set ws. f w \<noteq> None)
           \<and> column df' c = Some (map (\<lambda>w. the (f w)) ws)"
proof -
  from assign_converted_Inr [OF assms(1)] obtain i where
    i: "col_index (columns df) c = Some i"
    and ok: "\<forall>r \<in> set (rows df). f (r ! i) \<noteq> None"
    and df': "df' = df\<lparr>rows := map (\<lambda>r. r[i := the (f (r ! i))]) (rows df)\<rparr>"
    by blast
  from i have "i < length (columns df)" by (simp add: col_index_Some)
  with assms(2) have "\<forall>r \<in> set (rows df). i < length r"
    by (simp add: rect_def list_all_iff)
  then have "map (\<lambda>r. r ! i) (map (\<lambda>r. r[i := the (f (r ! i))]) (rows df))
      = map (\<lambda>w. the (f w)) (map (\<lambda>r. r ! i) (rows df))"
    by simp
  with i ok show ?thesis
    by (simp add: column_def df')
qed

lemma assign_all_converted_keeps:
  assumes "assign_all_converted f cs df = Inr df'" and "c' \<notin> set cs"
  shows "columns df' = columns df \<and> (rect df \<longrightarrow> rect df') \<and> column df' c' = column df c'"
  using assms
proof (induction cs arbitrary: df)
  case Nil
  then show ?case by simp
next
  case (Cons c cs)
  from Cons.prems(1) obtain df1 where
    1: "assign_converted f c df = Inr df1" and 2: "assign_all_converted f cs df1 = Inr df'"
    by (auto simp: and_then_Inr)
  from Cons.prems(2) have "c' \<noteq> c" "c' \<notin> set cs" by auto
  with Cons.IH [OF 2] assign_converted_keeps [OF 1] show ?case by simp
qed

lemma read_csv_rect:
  assumes "read_csv pd f = Inr df" and "frames_rect pd"
  shows "rect df"
proof (cases "list_ex (\<lambda>l. length (header f) < length l) (lines f)")
  case True
  with assms show ?thesis by (auto simp: read_csv_def frames_rect_def)
next
  case False
  then have "\<forall>l \<in> set (lines f). length l \<le> length (header f)"
    by (auto simp: list_ex_iff not_less)
  with False assms(1) show ?thesis
    by (auto simp: read_csv_def rect_def list_all_iff pad_def)
qed

lemma clip01_clamps: "clip01 v = (case v of NaN \<Rightarrow> NaN | Num x \<Rightarrow> Num (max 0 (min 1 x)))"
  by (cases v) (auto simp: max_def min_def)

lemma clip01_in_unit: "FloatV (clip01 v) = FloatV NaN \<or> in_unit (FloatV (clip01 v))"
  by (cases v) auto

lemma frames_rect_strict_pandas: "frames_rect strict_pandas"
  by (simp add: frames_rect_def strict_pandas_def)

lemma load_source_example: "fst (load_source strict_pandas example_fs) = Inr loaded_example"
  by (simp add: load_source_def Let_def ensure_dirs_def example_fs_def read_csv_strict_def
      read_csv_def source_csv_def pad_def missing_cols_def NEEDED_COLS_def assign_converted_def
      astype_float_clip_def loaded_example_def)

lemma sublist_join:
  "c \<in> set xs \<Longrightarrow> sublist c (join sep xs)"
proof (induction sep xs rule: join.induct)
  case (3 sep x y ys)
  show ?case
  proof (cases "c = x")
    case True
    then show ?thesis by simp
  next
    case False
    with 3 have "sublist c (join sep (y # ys))" by simp
    then have "sublist c ((x @ sep) @ join sep (y # ys))"
      by (meson sublist_append_leftI sublist_order.order_trans)
    then show ?thesis by simp
  qed
qed auto

lemma sublist_repr_list:
  assumes "c \<in> set xs"
  shows "sublist c (repr_list xs)"
proof -
  have "sublist c (repr_str c)"
    unfolding repr_str_def by (rule sublist_appendI)
  moreover have "sublist (repr_str c) (join '', '' (map repr_str xs))"
    using assms by (intro sublist_join) simp
  moreover have "sublist (join '', '' (map repr_str xs)) (repr_list xs)"
    unfolding repr_list_def by (rule sublist_appendI)
  ultimately show ?thesis
    by (meson sublist_order.order_trans)
qed

lemma import_frame: "snd (import_uploaded_csv pd b s) = s"
  by (simp add: import_uploaded_csv_def Let_def split: option.splits sum.splits)

text \<open>
  Claim C3, as the code has it. For every source file that \<open>load_source\<close> accepts,
  every \<open>WinRate\<close> cell of the returned frame is the cell of the file, read as a
  float and clamped to the nearest bound of [0,1] when it is a number, and is still
  missing (NaN) when the cell of the file is missing; so every \<open>WinRate\<close> of the
  returned frame is a number in [0,1] or is missing.
\<close>

theorem load_source_clips_winrate:
  assumes "fst (load_source pd s) = Inr df" and "frames_rect pd"
  shows "\<exists>f raw ws vs.
           src_file s = Some f \<and> read_csv pd f = Inr raw
         \<and> column raw ''WinRate'' = Some ws
         \<and> map (astype_float pd) ws = map Some vs
         \<and> column df ''WinRate''
             = Some (map (\<lambda>v. FloatV (case v of NaN \<Rightarrow> NaN | Num x \<Rightarrow> Num (max 0 (min 1 x)))) vs)
         \<and> (\<forall>c \<in> set (the (column df ''WinRate'')). c = FloatV NaN \<or> in_unit c)"
proof -
  let ?ints = "[''Games'', ''Wins'', ''Losses'', ''Draws'']"
  from assms(1) obtain df0 df1 df2 where
    strict: "read_csv_strict pd (src_file s) = Inr df0"
    and year: "assign_converted (astype_int pd) ''Year'' df0 = Inr df1"
    and ints: "assign_all_converted (astype_int pd) ?ints df1 = Inr df2"
    and rate: "assign_converted (astype_float_clip pd) ''WinRate'' df2 = Inr df"
    by (auto simp: load_source_def Let_def ensure_dirs_def and_then_Inr)
  from strict obtain f where f: "src_file s = Some f" and raw: "read_csv pd f = Inr df0"
    by (auto simp: read_csv_strict_def Let_def split: option.splits sum.splits if_splits)
  have r0: "rect df0" using raw assms(2) by (rule read_csv_rect)
  have r1: "rect df1" and c1: "column df1 ''WinRate'' = column df0 ''WinRate''"
    using assign_converted_keeps [OF year] r0 by simp_all
  have r2: "rect df2" and c2: "column df2 ''WinRate'' = column df0 ''WinRate''"
    using assign_all_converted_keeps [OF ints, of "''WinRate''"] r1 c1 by simp_all
  from assign_converted_column [OF rate r2] c2 obtain ws where
    ws: "column df0 ''WinRate'' = Some ws"
    and conv: "\<forall>w \<in> set ws. astype_float_clip pd w \<noteq> None"
    and out: "column df ''WinRate'' = Some (map (\<lambda>w. the (astype_float_clip pd w)) ws)"
    by auto
  define vs where "vs = map (\<lambda>w. the (astype_float pd w)) ws"
  have some: "astype_float pd w = Some (the (astype_float pd w))" if "w \<in> set ws" for w
    using conv that by (auto simp: astype_float_clip_def)
  then have vs: "map (astype_float pd) ws = map Some vs"
    by (simp add: vs_def)
  have "the (astype_float_clip pd w) = FloatV (clip01 (the (astype_float pd w)))"
    if "w \<in> set ws" for w
    using some [OF that] by (cases "astype_float pd w") (simp_all add: astype_float_clip_def)
  then have "map (\<lambda>w. the (astype_float_clip pd w)) ws = map (\<lambda>v. FloatV (clip01 v)) vs"
    by (simp add: vs_def)
  with out have out': "column df ''WinRate'' = Some (map (\<lambda>v. FloatV (clip01 v)) vs)"
    by simp
  then have "\<forall>c \<in> set (the (column df ''WinRate'')). c = FloatV NaN \<or> in_unit c"
    using clip01_in_unit by auto
  moreover have "column df ''WinRate''
      = Some (map (\<lambda>v. FloatV (case v of NaN \<Rightarrow> NaN | Num x \<Rightarrow> Num (max 0 (min 1 x)))) vs)"
    using out' by (simp add: clip01_clamps)
  ultimately show ?thesis
    using f raw ws vs by blast
qed

theorem load_source_clips_winrate_witness:
  "fst (load_source strict_pandas example_fs) = Inr loaded_example
   \<and> frames_rect strict_pandas
   \<and> column loaded_example ''WinRate''
       = Some [FloatV (Num 1), FloatV (Num 0.507), FloatV (Num 0), FloatV NaN]
   \<and> list_all in_unit [FloatV (Num 1), FloatV (Num 0.507), FloatV (Num 0)]"
  using load_source_clips_winrate [OF load_source_example frames_rect_strict_pandas]
    load_source_example frames_rect_strict_pandas
  by (simp add: column_def loaded_example_def NEEDED_COLS_def)

text \<open>
  Claim C3 as stated fails for a file with an empty \<open>WinRate\<close> field: the file is
  accepted, and the cell is NaN in the returned frame, which is no number in [0,1].
\<close>

theorem load_source_nan_counterexample:
  "fst (load_source strict_pandas example_fs) = Inr loaded_example
   \<and> column loaded_example ''WinRate''
       = Some [FloatV (Num 1), FloatV (Num 0.507), FloatV (Num 0), FloatV NaN]
   \<and> \<not> list_all in_unit [FloatV (Num 1), FloatV (Num 0.507), FloatV (Num 0), FloatV NaN]"
  using load_source_example
  by (simp add: column_def loaded_example_def NEEDED_COLS_def)

text \<open>
  Claim C4, as the code has it. For every table read from CSV that lacks a needed
  column, the source loader fails with the \<open>ValueError\<close> whose message names the
  missing columns and then the whole list of needed columns, and the upload importer
  fails with the \<open>ValueError\<close> whose message names the missing columns only; when no
  needed column is missing, the source loader raises no such error and the upload
  importer returns the table.
\<close>

theorem schema_error_messages:
  assumes "read_csv pd f = Inr df"
  shows "(missing_cols df \<noteq> [] \<longrightarrow>
            fst (load_source pd (s\<lparr>src_file := Some f\<rparr>))
              = Inl (ValueError (MSG_SOURCE @ repr_list (missing_cols df) @ MSG_EXPECTED
                       @ repr_list NEEDED_COLS))
          \<and> fst (import_uploaded_csv pd (Some f) s)
              = Inl (ValueError (MSG_UPLOAD @ repr_list (missing_cols df))))
       \<and> (missing_cols df = [] \<longrightarrow>
            (\<forall>m. fst (load_source pd (s\<lparr>src_file := Some f\<rparr>)) \<noteq> Inl (ValueError m))
          \<and> fst (import_uploaded_csv pd (Some f) s) = Inr df)"
proof (cases "missing_cols df = []")
  case True
  have "fst (load_source pd (s\<lparr>src_file := Some f\<rparr>)) \<noteq> Inl (ValueError m)" for m
  proof
    assume "fst (load_source pd (s\<lparr>src_file := Some f\<rparr>)) = Inl (ValueError m)"
    then show False
      unfolding load_source_Some read_csv_strict_Some [OF assms]
      using True assign_converted_no_ValueError assign_all_converted_no_ValueError
      by (auto dest!: and_then_ValueError)
  qed
  with True assms show ?thesis
    by (simp add: import_uploaded_csv_def)
next
  case False
  with assms show ?thesis
    by (simp add: load_source_Some read_csv_strict_Some import_uploaded_csv_def)
qed

theorem schema_error_messages_witness:
  "read_csv strict_pandas no_draws_csv
     = Inr \<lparr>columns = header no_draws_csv, rows = lines no_draws_csv\<rparr>
   \<and> missing_cols \<lparr>columns = header no_draws_csv, rows = lines no_draws_csv\<rparr> = [''Draws'']
   \<and> fst (load_source strict_pandas (example_fs\<lparr>src_file := Some no_draws_csv\<rparr>))
       = Inl (ValueError (MSG_SOURCE @ ''['' @ [CHR 0x27] @ ''Draws'' @ [CHR 0x27] @ '']''
                @ MSG_EXPECTED @ repr_list NEEDED_COLS))
   \<and> fst (import_uploaded_csv strict_pandas (Some no_draws_csv) example_fs)
       = Inl (ValueError (MSG_UPLOAD @ ''['' @ [CHR 0x27] @ ''Draws'' @ [CHR 0x27] @ '']''))
   \<and> read_csv strict_pandas source_csv
       = Inr \<lparr>columns = header source_csv, rows = lines source_csv\<rparr>
   \<and> missing_cols \<lparr>columns = header source_csv, rows = lines source_csv\<rparr> = []
   \<and> fst (import_uploaded_csv strict_pandas (Some source_csv) example_fs)
       = Inr \<lparr>columns = header source_csv, rows = lines source_csv\<rparr>"
proof -
  have 1: "read_csv strict_pandas no_draws_csv
     = Inr \<lparr>columns = header no_draws_csv, rows = lines no_draws_csv\<rparr>"
    by (simp add: read_csv_def no_draws_csv_def pad_def)
  have 2: "read_csv strict_pandas source_csv
       = Inr \<lparr>columns = header source_csv, rows = lines source_csv\<rparr>"
    by (simp add: read_csv_def source_csv_def pad_def NEEDED_COLS_def)
  have 3: "missing_cols \<lparr>columns = header no_draws_csv, rows = lines no_draws_csv\<rparr> = [''Draws'']"
    by (simp add: missing_cols_def no_draws_csv_def NEEDED_COLS_def)
  have 4: "missing_cols \<lparr>columns = header source_csv, rows = lines source_csv\<rparr> = []"
    by (simp add: missing_cols_def source_csv_def NEEDED_COLS_def)
  show ?thesis
    using schema_error_messages [OF 1, of example_fs] schema_error_messages [OF 2, of example_fs]
    by (simp add: 1 2 3 4 repr_list_def repr_str_def)
qed

text \<open>
  Claim C4 as stated fails for the upload importer: for an upload without the \<open>Draws\<close>
  column its message names \<open>Draws\<close> and does not hold the list of needed columns.
\<close>

theorem upload_message_counterexample:
  "fst (import_uploaded_csv strict_pandas (Some no_draws_csv) example_fs)
     = Inl (ValueError (MSG_UPLOAD @ repr_list [''Draws'']))
   \<and> \<not> sublist (repr_list NEEDED_COLS) (MSG_UPLOAD @ repr_list [''Draws''])"
proof -
  have "fst (import_uploaded_csv strict_pandas (Some no_draws_csv) example_fs)
     = Inl (ValueError (MSG_UPLOAD @ repr_list [''Draws'']))"
    by (simp add: import_uploaded_csv_def read_csv_def no_draws_csv_def pad_def
        missing_cols_def NEEDED_COLS_def)
  moreover have "\<not> sublist (repr_list NEEDED_COLS) (MSG_UPLOAD @ repr_list [''Draws''])"
    by (simp add: NEEDED_COLS_def repr_list_def repr_str_def MSG_UPLOAD_def sublist_code)
  ultimately show ?thesis by simp
qed

text \<open>
  Claim C8. For every upload buffer, \<open>import_uploaded_csv\<close> leaves every file as it
  was, whether it fails or returns a table, so \<open>load_source\<close> afterwards does what it
  would have done before; in particular an upload without the \<open>Draws\<close> column fails
  with the \<open>ValueError\<close> that names \<open>Draws\<close>.
\<close>

theorem import_uploaded_csv_leaves_files:
  "snd (import_uploaded_csv pd b s) = s
   \<and> load_source pd (snd (import_uploaded_csv pd b s)) = load_source pd s
   \<and> (\<forall>file df. b = Some file \<and> read_csv pd file = Inr df \<and> ''Draws'' \<notin> set (columns df)
        \<longrightarrow> (\<exists>m. fst (import_uploaded_csv pd b s) = Inl (ValueError m) \<and> sublist ''Draws'' m))"
proof -
  have "\<exists>m. fst (import_uploaded_csv pd (Some f) s) = Inl (ValueError m) \<and> sublist ''Draws'' m"
    if "read_csv pd f = Inr df" and "''Draws'' \<notin> set (columns df)" for f df
  proof -
    from that(2) have mem: "''Draws'' \<in> set (missing_cols df)"
      by (simp add: missing_cols_def NEEDED_COLS_def)
    then have "missing_cols df \<noteq> []" by auto
    with that(1) have "fst (import_uploaded_csv pd (Some f) s)
        = Inl (ValueError (MSG_UPLOAD @ repr_list (missing_cols df)))"
      by (simp add: import_uploaded_csv_def)
    moreover have "sublist ''Draws'' (MSG_UPLOAD @ repr_list (missing_cols df))"
      using sublist_repr_list [OF mem] by (meson sublist_append_leftI sublist_order.order_trans)
    ultimately show ?thesis by blast
  qed
  then show ?thesis
    by (auto simp: import_frame)
qed

theorem import_uploaded_csv_leaves_files_witness:
  "snd (import_uploaded_csv strict_pandas (Some no_draws_csv) example_fs) = example_fs
   \<and> fst (load_source strict_pandas
          (snd (import_uploaded_csv strict_pandas (Some no_draws_csv) example_fs)))
       = Inr loaded_example
   \<and> read_csv strict_pandas no_draws_csv
       = Inr \<lparr>columns = header no_draws_csv, rows = lines no_draws_csv\<rparr>
   \<and> ''Draws'' \<notin> set (header no_draws_csv)
   \<and> (\<exists>m. fst (import_uploaded_csv strict_pandas (Some no_draws_csv) example_fs)
             = Inl (ValueError m) \<and> sublist ''Draws'' m)"
proof -
  have 1: "read_csv strict_pandas no_draws_csv
     = Inr \<lparr>columns = header no_draws_csv, rows = lines no_draws_csv\<rparr>"
    by (simp add: read_csv_def no_draws_csv_def pad_def)
  have 2: "''Draws'' \<notin> set (header no_draws_csv)"
    by (simp add: no_draws_csv_def)
  show ?thesis
    using import_uploaded_csv_leaves_files [of strict_pandas "Some no_draws_csv" example_fs]
      1 2 load_source_example
    by simp
qed

subsection \<open>The history log\<close>

text \<open>
  Claim C9. Whenever the history log does not exist, \<open>load_db\<close> returns the empty
  frame as an ordinary result, and leaves the files as they are.
\<close>

theorem load_db_no_log:
  assumes "db_file s = None"
  shows "load_db pd s = (Inr \<lparr>columns = [], rows = []\<rparr>, s)"
  using assms by (simp add: load_db_def)

theorem load_db_no_log_witness:
  "db_file example_fs = None
   \<and> load_db strict_pandas example_fs = (Inr \<lparr>columns = [], rows = []\<rparr>, example_fs)"
proof -
  have "db_file example_fs = None"
    by (simp add: example_fs_def)
  from this load_db_no_log [OF this, of strict_pandas] show ?thesis
    by simp
qed







lemma not_int_text_Nil: "\<not> is_int_text []"
  by simp




















end
